theory Spec2Isabelle
  imports Main "HOL-Library.AList" "HOL-Library.Sublist" "HOL-Library.Multiset"
begin

section \<open>JavaScript strings and objects\<close>

text \<open>
  A string is the list of its code units, restricted to the range U+0000 .. U+00FF that
  the type \<^typ>\<open>char\<close> holds. \<open>String.prototype.includes\<close> is substring containment
  from position 0.
\<close>

fun includes_str :: "string \<Rightarrow> string \<Rightarrow> bool" where
  "includes_str [] t = (t = [])"
| "includes_str (c # s) t = (prefix t (c # s) \<or> includes_str s t)"

text \<open>
  \<open>toLowerCase\<close> on one code unit: the letters A-Z and the Latin-1 capitals
  (U+00C0 .. U+00DE without the multiplication sign U+00D7) move up by 32.
\<close>

definition toLowerCase_char :: "char \<Rightarrow> char" where
  "toLowerCase_char c =
     (let n = (of_char c :: nat)
      in if (65 \<le> n \<and> n \<le> 90) \<or> (192 \<le> n \<and> n \<le> 222 \<and> n \<noteq> 215)
         then char_of (n + 32) else c)"

definition toLowerCase :: "string \<Rightarrow> string" where
  "toLowerCase s = map toLowerCase_char s"

text \<open>\<open>s.charAt(0)\<close>: the first code unit as a string, the empty string when there is none.\<close>

definition charAt0 :: "string \<Rightarrow> string" where
  "charAt0 s = take 1 s"

text \<open>
  The data object of a warning: its own properties with their values, a missing key being
  \<open>undefined\<close>. \<open>!!x\<close> on a property that is a string or \<open>undefined\<close>: true exactly
  for a non-empty string.
\<close>

type_synonym data = "(string \<times> string) list"

definition field :: "data \<Rightarrow> string \<Rightarrow> string option" where
  "field d k = map_of d k"

fun truthy :: "string option \<Rightarrow> bool" where
  "truthy None = False"
| "truthy (Some s) = (s \<noteq> [])"

text \<open>The value of a template placeholder \<open>${x}\<close> that is reached only when \<open>x\<close> is a string.\<close>

fun str :: "string option \<Rightarrow> string" where
  "str None = ''undefined''"
| "str (Some s) = s"

text \<open>An argument of a constructor call: omitted (\<open>undefined\<close>), a string, or a data object.\<close>

datatype jsarg = Undefined | Str string | Obj data


section \<open>The warning classes\<close>

text \<open>
  The ten exported classes, and \<open>UserClass i n p\<close> for a class declared by a caller as
  \<open>class n extends p {}\<close> (as \<open>CustomWarning\<close> in the manager's tests); \<open>i\<close> is the
  identity of the class object, since two declarations may share a name.
\<close>

datatype kind =
    Warning
  | OSWarning
  | ProcessWarning
  | ConnectionWarning
  | DiskWarning
  | MemoryWarning
  | FutureWarning
  | StabilityWarning
  | DeprecationWarning
  | PendingDeprecationWarning
  | UserClass nat string kind

text \<open>The \<open>extends\<close> clause of each class declaration (\<open>Warning\<close> extends the external \<open>Exception\<close>).\<close>

fun extends :: "kind \<Rightarrow> kind option" where
  "extends Warning = None"
| "extends OSWarning = Some Warning"
| "extends ProcessWarning = Some OSWarning"
| "extends ConnectionWarning = Some OSWarning"
| "extends DiskWarning = Some OSWarning"
| "extends MemoryWarning = Some OSWarning"
| "extends FutureWarning = Some Warning"
| "extends StabilityWarning = Some FutureWarning"
| "extends DeprecationWarning = Some FutureWarning"
| "extends PendingDeprecationWarning = Some FutureWarning"
| "extends (UserClass i n p) = Some p"

fun class_name :: "kind \<Rightarrow> string" where
  "class_name Warning = ''Warning''"
| "class_name OSWarning = ''OSWarning''"
| "class_name ProcessWarning = ''ProcessWarning''"
| "class_name ConnectionWarning = ''ConnectionWarning''"
| "class_name DiskWarning = ''DiskWarning''"
| "class_name MemoryWarning = ''MemoryWarning''"
| "class_name FutureWarning = ''FutureWarning''"
| "class_name StabilityWarning = ''StabilityWarning''"
| "class_name DeprecationWarning = ''DeprecationWarning''"
| "class_name PendingDeprecationWarning = ''PendingDeprecationWarning''"
| "class_name (UserClass i n p) = n"

text \<open>A warning instance: the class it was constructed with, and its fields.\<close>

record warning =
  kind :: kind
  message :: string
  code :: nat
  data :: "data option"

text \<open>
  Modelled from the spec: the base class \<open>Exception\<close> of the package
  \<open>@kz/common-exceptions\<close> is not part of the repository. Its constructor takes
  \<open>(message)\<close> or \<open>(message, data)\<close> and yields a record that carries the kind name,
  the message and the optional data; the tests of the repository read an empty data object
  back as \<open>undefined\<close>. The value of \<open>code\<close> it leaves is overwritten by the field
  initialiser of \<open>Warning\<close>. \<open>nt\<close> is \<open>new.target\<close>, the class named in the \<open>new\<close>
  expression. Arguments outside the signature do not pass the type checker; for them the
  record has the empty message and no data.
\<close>

definition Exception_new :: "kind \<Rightarrow> jsarg \<Rightarrow> jsarg \<Rightarrow> warning" where
  "Exception_new nt a1 a2 =
     \<lparr>kind = nt,
      message = (case a1 of Str m \<Rightarrow> m | _ \<Rightarrow> []),
      code = 0,
      data = (case a2 of Obj d \<Rightarrow> (if d = [] then None else Some d) | _ \<Rightarrow> None)\<rparr>"

text \<open>Modelled from the spec: \<open>name\<close> is the kind name of the concrete class.\<close>

definition name :: "warning \<Rightarrow> string" where
  "name w = class_name (kind w)"

subsection \<open>Classes that only set their code\<close>

text \<open>
  A class without a constructor passes its arguments to the constructor of its superclass;
  its field initialiser \<open>code = ...\<close> runs when that constructor has returned.
\<close>

definition Warning_new :: "kind \<Rightarrow> jsarg \<Rightarrow> jsarg \<Rightarrow> warning" where
  "Warning_new nt a1 a2 = (Exception_new nt a1 a2)\<lparr>code := 0x48\<rparr>"

definition OSWarning_new :: "kind \<Rightarrow> jsarg \<Rightarrow> jsarg \<Rightarrow> warning" where
  "OSWarning_new nt a1 a2 = (Warning_new nt a1 a2)\<lparr>code := 0x49\<rparr>"

definition MemoryWarning_new :: "kind \<Rightarrow> jsarg \<Rightarrow> jsarg \<Rightarrow> warning" where
  "MemoryWarning_new nt a1 a2 = (OSWarning_new nt a1 a2)\<lparr>code := 0x4a\<rparr>"

definition DiskWarning_new :: "kind \<Rightarrow> jsarg \<Rightarrow> jsarg \<Rightarrow> warning" where
  "DiskWarning_new nt a1 a2 = (OSWarning_new nt a1 a2)\<lparr>code := 0x4b\<rparr>"

definition ProcessWarning_new :: "kind \<Rightarrow> jsarg \<Rightarrow> jsarg \<Rightarrow> warning" where
  "ProcessWarning_new nt a1 a2 = (OSWarning_new nt a1 a2)\<lparr>code := 0x4c\<rparr>"

definition ConnectionWarning_new :: "kind \<Rightarrow> jsarg \<Rightarrow> jsarg \<Rightarrow> warning" where
  "ConnectionWarning_new nt a1 a2 = (OSWarning_new nt a1 a2)\<lparr>code := 0x4d\<rparr>"

definition FutureWarning_new :: "kind \<Rightarrow> jsarg \<Rightarrow> jsarg \<Rightarrow> warning" where
  "FutureWarning_new nt a1 a2 = (Warning_new nt a1 a2)\<lparr>code := 0x58\<rparr>"


subsection \<open>Classes that synthesise their message\<close>

text \<open>
  The three files \<open>stability_warning.ts\<close>, \<open>deprecation_warning.ts\<close> and
  \<open>pending_deprecation_warning.ts\<close> start \<open>createMessageFromData\<close> with the same
  three lines:
  \<^verbatim>\<open>const vowels = 'aeiou';\<close>
  \<^verbatim>\<open>const first = featureType?.charAt(0).toLowerCase() || '';\<close>
  \<^verbatim>\<open>const A = vowels.includes(first) ? 'An' : 'A';\<close>
\<close>

definition vowels :: string where
  "vowels = ''aeiou''"

definition first :: "string option \<Rightarrow> string" where
  "first featureType =
     (case featureType of
        None \<Rightarrow> []
      | Some ft \<Rightarrow> (let l = toLowerCase (charAt0 ft) in if l = [] then [] else l))"

definition A :: "string option \<Rightarrow> string" where
  "A featureType = (if includes_str vowels (first featureType) then ''An'' else ''A'')"

definition Stability_DEFAULT_MESSAGE :: string where
  "Stability_DEFAULT_MESSAGE =
     ''A feature is unstable and should not be used in production environments.''"

definition Stability_createMessageFromData :: "data \<Rightarrow> string" where
  "Stability_createMessageFromData d =
     (let aboutUrl = field d ''aboutUrl'';
          featureName = field d ''featureName'';
          featureType = field d ''featureType''
      in
      if truthy aboutUrl \<and> truthy featureName \<and> truthy featureType then
        A featureType @ '' '' @ str featureType @ '', '' @ str featureName
          @ '', is unstable and should not be used in production environments. Read more at ''
          @ str aboutUrl @ ''.''
      else if truthy aboutUrl \<and> truthy featureName then
        ''A feature, '' @ str featureName
          @ '', is unstable and should not be used in production environments. Read more at ''
          @ str aboutUrl @ ''.''
      else if truthy aboutUrl \<and> truthy featureType then
        A featureType @ '' '' @ str featureType
          @ '' is unstable and should not be used in production environments. Read more at ''
          @ str aboutUrl @ ''.''
      else if truthy featureName \<and> truthy featureType then
        A featureType @ '' '' @ str featureType @ '', '' @ str featureName
          @ '', is unstable and should not be used in production environments.''
      else if truthy featureName then
        ''A feature, '' @ str featureName
          @ '', is unstable and should not be used in production environments.''
      else if truthy featureType then
        A featureType @ '' '' @ str featureType
          @ '' is unstable and should not be used in production environments.''
      else if truthy aboutUrl then
        Stability_DEFAULT_MESSAGE @ '' Read more at '' @ str aboutUrl @ ''.''
      else Stability_DEFAULT_MESSAGE)"

text \<open>
  The constructor \<open>(messageOrData = DEFAULT_MESSAGE, data = {})\<close>: a default applies to an
  omitted argument only; a string is the message, an object is the data and the message is
  synthesised from it; \<open>message || DEFAULT_MESSAGE\<close> replaces the empty string.
\<close>

definition StabilityWarning_new :: "kind \<Rightarrow> jsarg \<Rightarrow> jsarg \<Rightarrow> warning" where
  "StabilityWarning_new nt messageOrData data0 =
     (let data1 = (case data0 of Undefined \<Rightarrow> Obj [] | x \<Rightarrow> x);
          md = (case messageOrData of
                  Undefined \<Rightarrow> (Stability_DEFAULT_MESSAGE, data1)
                | Str m \<Rightarrow> (m, data1)
                | Obj d \<Rightarrow> (Stability_createMessageFromData d, Obj d));
          message1 = (if fst md = [] then Stability_DEFAULT_MESSAGE else fst md)
      in (FutureWarning_new nt (Str message1) (snd md))\<lparr>code := 0x59\<rparr>)"

definition PendingDeprecation_DEFAULT_MESSAGE :: string where
  "PendingDeprecation_DEFAULT_MESSAGE = ''A feature is pending deprecation.''"

definition PendingDeprecation_createMessageFromData :: "data \<Rightarrow> string" where
  "PendingDeprecation_createMessageFromData d =
     (let aboutUrl = field d ''aboutUrl'';
          featureName = field d ''featureName'';
          featureType = field d ''featureType''
      in
      if truthy aboutUrl \<and> truthy featureName \<and> truthy featureType then
        A featureType @ '' '' @ str featureType @ '', '' @ str featureName
          @ '', is pending deprecation. Read more at '' @ str aboutUrl @ ''.''
      else if truthy aboutUrl \<and> truthy featureName then
        ''A feature, '' @ str featureName
          @ '', is pending deprecation. Read more at '' @ str aboutUrl @ ''.''
      else if truthy aboutUrl \<and> truthy featureType then
        A featureType @ '' '' @ str featureType
          @ '' is pending deprecation. Read more at '' @ str aboutUrl @ ''.''
      else if truthy featureName \<and> truthy featureType then
        A featureType @ '' '' @ str featureType @ '', '' @ str featureName
          @ '', is pending deprecation.''
      else if truthy featureName then
        ''A feature, '' @ str featureName @ '', is pending deprecation.''
      else if truthy featureType then
        A featureType @ '' '' @ str featureType @ '' is pending deprecation.''
      else if truthy aboutUrl then
        PendingDeprecation_DEFAULT_MESSAGE @ '' Read more at '' @ str aboutUrl @ ''.''
      else PendingDeprecation_DEFAULT_MESSAGE)"

definition PendingDeprecationWarning_new :: "kind \<Rightarrow> jsarg \<Rightarrow> jsarg \<Rightarrow> warning" where
  "PendingDeprecationWarning_new nt messageOrData data0 =
     (let data1 = (case data0 of Undefined \<Rightarrow> Obj [] | x \<Rightarrow> x);
          md = (case messageOrData of
                  Undefined \<Rightarrow> (PendingDeprecation_DEFAULT_MESSAGE, data1)
                | Str m \<Rightarrow> (m, data1)
                | Obj d \<Rightarrow> (PendingDeprecation_createMessageFromData d, Obj d));
          message1 = (if fst md = [] then PendingDeprecation_DEFAULT_MESSAGE else fst md)
      in (FutureWarning_new nt (Str message1) (snd md))\<lparr>code := 0x5a\<rparr>)"

definition Deprecation_DEFAULT_MESSAGE :: string where
  "Deprecation_DEFAULT_MESSAGE = ''A feature has been deprecated.''"

definition Deprecation_createMessageFromData :: "data \<Rightarrow> string" where
  "Deprecation_createMessageFromData d =
     (let aboutUrl = field d ''aboutUrl'';
          alternativeFeatureName = field d ''alternativeFeatureName'';
          featureName = field d ''featureName'';
          featureType = field d ''featureType''
      in
      if truthy aboutUrl \<and> truthy alternativeFeatureName \<and> truthy featureName
           \<and> truthy featureType then
        A featureType @ '' '' @ str featureType @ '', '' @ str featureName
          @ '', has been deprecated. Use '' @ str alternativeFeatureName
          @ '' instead. Read more at '' @ str aboutUrl @ ''.''
      else if truthy aboutUrl \<and> truthy featureName \<and> truthy featureType then
        A featureType @ '' '' @ str featureType @ '', '' @ str featureName
          @ '', has been deprecated. Read more at '' @ str aboutUrl @ ''.''
      else if truthy aboutUrl \<and> truthy alternativeFeatureName \<and> truthy featureName then
        ''A feature, '' @ str featureName @ '', has been deprecated. Use ''
          @ str alternativeFeatureName @ '' instead. Read more at '' @ str aboutUrl @ ''.''
      else if truthy aboutUrl \<and> truthy alternativeFeatureName \<and> truthy featureType then
        A featureType @ '' '' @ str featureType @ '' has been deprecated. Use ''
          @ str alternativeFeatureName @ '' instead. Read more at '' @ str aboutUrl @ ''.''
      else if truthy alternativeFeatureName \<and> truthy featureName \<and> truthy featureType then
        A featureType @ '' '' @ str featureType @ '', '' @ str featureName
          @ '', has been deprecated. Use '' @ str alternativeFeatureName @ '' instead.''
      else if truthy aboutUrl \<and> truthy featureName then
        ''A feature, '' @ str featureName @ '', has been deprecated. Read more at ''
          @ str aboutUrl @ ''.''
      else if truthy aboutUrl \<and> truthy alternativeFeatureName then
        ''A feature has been deprecated. Use '' @ str alternativeFeatureName
          @ '' instead. Read more at '' @ str aboutUrl @ ''.''
      else if truthy aboutUrl \<and> truthy featureType then
        A featureType @ '' '' @ str featureType @ '' has been deprecated. Read more at ''
          @ str aboutUrl @ ''.''
      else if truthy alternativeFeatureName \<and> truthy featureName then
        ''A feature, '' @ str featureName @ '', has been deprecated. Use ''
          @ str alternativeFeatureName @ '' instead.''
      else if truthy alternativeFeatureName \<and> truthy featureType then
        A featureType @ '' '' @ str featureType @ '' has been deprecated. Use ''
          @ str alternativeFeatureName @ '' instead.''
      else if truthy featureName \<and> truthy featureType then
        A featureType @ '' '' @ str featureType @ '', '' @ str featureName
          @ '', has been deprecated.''
      else if truthy featureName then
        ''A feature, '' @ str featureName @ '', has been deprecated.''
      else if truthy featureType then
        A featureType @ '' '' @ str featureType @ '' has been deprecated.''
      else if truthy aboutUrl then
        Deprecation_DEFAULT_MESSAGE @ '' Read more at '' @ str aboutUrl @ ''.''
      else if truthy alternativeFeatureName then
        ''A feature has been deprecated. Use '' @ str alternativeFeatureName @ '' instead.''
      else Deprecation_DEFAULT_MESSAGE)"

definition DeprecationWarning_new :: "kind \<Rightarrow> jsarg \<Rightarrow> jsarg \<Rightarrow> warning" where
  "DeprecationWarning_new nt messageOrData data0 =
     (let data1 = (case data0 of Undefined \<Rightarrow> Obj [] | x \<Rightarrow> x);
          md = (case messageOrData of
                  Undefined \<Rightarrow> (Deprecation_DEFAULT_MESSAGE, data1)
                | Str m \<Rightarrow> (m, data1)
                | Obj d \<Rightarrow> (Deprecation_createMessageFromData d, Obj d));
          message1 = (if fst md = [] then Deprecation_DEFAULT_MESSAGE else fst md)
      in (FutureWarning_new nt (Str message1) (snd md))\<lparr>code := 0x5b\<rparr>)"

subsection \<open>The \<open>new\<close> expression\<close>

text \<open>
  \<open>init k nt a1 a2\<close> runs the constructor of class \<open>k\<close> for \<open>new nt(a1, a2)\<close>; a class
  declared with an empty body runs the constructor of its superclass.
\<close>

fun init :: "kind \<Rightarrow> kind \<Rightarrow> jsarg \<Rightarrow> jsarg \<Rightarrow> warning" where
  "init Warning nt a1 a2 = Warning_new nt a1 a2"
| "init OSWarning nt a1 a2 = OSWarning_new nt a1 a2"
| "init ProcessWarning nt a1 a2 = ProcessWarning_new nt a1 a2"
| "init ConnectionWarning nt a1 a2 = ConnectionWarning_new nt a1 a2"
| "init DiskWarning nt a1 a2 = DiskWarning_new nt a1 a2"
| "init MemoryWarning nt a1 a2 = MemoryWarning_new nt a1 a2"
| "init FutureWarning nt a1 a2 = FutureWarning_new nt a1 a2"
| "init StabilityWarning nt a1 a2 = StabilityWarning_new nt a1 a2"
| "init DeprecationWarning nt a1 a2 = DeprecationWarning_new nt a1 a2"
| "init PendingDeprecationWarning nt a1 a2 = PendingDeprecationWarning_new nt a1 a2"
| "init (UserClass i n p) nt a1 a2 = init p nt a1 a2"

definition construct :: "kind \<Rightarrow> jsarg \<Rightarrow> jsarg \<Rightarrow> warning" where
  "construct k a1 a2 = init k k a1 a2"


subsection \<open>\<open>instanceof\<close>\<close>

text \<open>
  \<open>w instanceof type\<close> walks the prototype chain of \<open>w\<close>, that is the chain of
  \<open>extends\<close> clauses from the class of \<open>w\<close> upwards, looking for \<open>type\<close>.
\<close>

fun depth :: "kind \<Rightarrow> nat" where
  "depth Warning = 0"
| "depth OSWarning = 1"
| "depth ProcessWarning = 2"
| "depth ConnectionWarning = 2"
| "depth DiskWarning = 2"
| "depth MemoryWarning = 2"
| "depth FutureWarning = 1"
| "depth StabilityWarning = 2"
| "depth DeprecationWarning = 2"
| "depth PendingDeprecationWarning = 2"
| "depth (UserClass i n p) = Suc (depth p)"

function instanceof_kind :: "kind \<Rightarrow> kind \<Rightarrow> bool" where
  "instanceof_kind k t =
     (k = t \<or> (case extends k of None \<Rightarrow> False | Some p \<Rightarrow> instanceof_kind p t))"
  by pat_completeness auto
termination
proof (relation "measure (\<lambda>(k, t). depth k)")
  show "wf (measure (\<lambda>(k, t). depth k))"
    by simp
next
  fix k t p
  assume "extends k = Some p"
  then have "depth p < depth k"
    by (cases k) auto
  then show "((p, t), (k, t)) \<in> measure (\<lambda>(k, t). depth k)"
    by simp
qed

declare instanceof_kind.simps [simp del]

definition instanceof :: "warning \<Rightarrow> kind \<Rightarrow> bool" where
  "instanceof w t = instanceof_kind (kind w) t"

text \<open>
  The hierarchy in the words of the spec: a kind is the variant \<open>v\<close> or a descendant of it
  when a chain of \<open>extends\<close> clauses leads from it to \<open>v\<close>.
\<close>

definition descendant_or_self :: "kind \<Rightarrow> kind \<Rightarrow> bool" where
  "descendant_or_self k v = (\<lambda>a b. extends a = Some b)\<^sup>*\<^sup>* k v"


section \<open>The warning manager\<close>

text \<open>
  Arrays are objects: \<open>getWarnings\<close> hands one to the caller while \<open>add\<close> pushes onto the
  manager's own. The state therefore holds a store of arrays by address, the next unused
  address, the fields of the manager (\<open>warnings\<close> is a reference into the store), and
  the trace of the calls \<open>o.next(w)\<close> made so far. An observer is known by its identity.
\<close>

type_synonym addr = nat
type_synonym observer = nat

record state =
  heap :: "addr \<Rightarrow> warning list"
  fresh :: addr
  warnings :: addr
  observers :: "observer list"
  completed :: bool
  notified :: "(observer \<times> warning) list"

text \<open>An array literal or a copy: a new array at the next unused address.\<close>

definition alloc :: "warning list \<Rightarrow> state \<Rightarrow> addr \<times> state" where
  "alloc xs s = (fresh s, s\<lparr>heap := (heap s)(fresh s := xs), fresh := Suc (fresh s)\<rparr>)"

text \<open>\<open>new WarningManager()\<close>: the field initialiser \<open>warnings = []\<close>, no observer.\<close>

definition WarningManager_new :: state where
  "WarningManager_new =
     \<lparr>heap = (\<lambda>a. []), fresh = 1, warnings = 0, observers = [], completed = False,
      notified = []\<rparr>"

text \<open>
  Modelled from the spec: the base class \<open>TBaseObservable\<close> of the package
  \<open>@kz/observe\<close> is not part of the repository. The spec gives the manager a set of
  observers (an observer is subscribed once), a \<open>completed\<close> flag, a \<open>subscribe\<close> that
  is always allowed, an \<open>unsubscribe\<close>, a notification that calls \<open>next\<close> once with the
  record on every observer subscribed at that moment, without a guard on \<open>completed\<close>,
  and a completion that unsubscribes every observer and sets \<open>completed\<close>. An observer's
  \<open>next\<close> is taken to return; the spec leaves one that throws open. Observers are
  notified in the order of their subscription.
\<close>

definition subscribe :: "observer \<Rightarrow> state \<Rightarrow> state" where
  "subscribe ob s =
     s\<lparr>observers := (if ob \<in> set (observers s) then observers s else observers s @ [ob])\<rparr>"

definition unsubscribe :: "observer \<Rightarrow> state \<Rightarrow> state" where
  "unsubscribe ob s = s\<lparr>observers := filter (\<lambda>x. x \<noteq> ob) (observers s)\<rparr>"

definition publish :: "warning \<Rightarrow> state \<Rightarrow> state" where
  "publish w s = s\<lparr>notified := notified s @ map (\<lambda>ob. (ob, w)) (observers s)\<rparr>"

definition Observable_complete :: "state \<Rightarrow> state" where
  "Observable_complete s = s\<lparr>observers := [], completed := True\<rparr>"

subsection \<open>The methods of \<open>WarningManager\<close>\<close>

definition length_wm :: "state \<Rightarrow> nat" where
  "length_wm s = length (heap s (warnings s))"

definition add :: "warning \<Rightarrow> state \<Rightarrow> state" where
  "add w s = publish w (s\<lparr>heap := (heap s)(warnings s := heap s (warnings s) @ [w])\<rparr>)"

text \<open>
  The first argument of \<open>warn\<close> is a string or an instance. The second is omitted
  (\<open>undefined\<close>, which the default \<open>type = Warning\<close> replaces), another falsy value such
  as \<open>null\<close>, or a class.
\<close>

datatype warn_arg = Message string | Instance warning

datatype type_arg = Omitted | Falsy | Class kind

definition warn :: "warn_arg \<Rightarrow> type_arg \<Rightarrow> state \<Rightarrow> state" where
  "warn warning type0 s =
     (let type = (case type0 of Omitted \<Rightarrow> Class Warning | x \<Rightarrow> x)
      in case warning of
           Message m \<Rightarrow>
             (case type of
                Class k \<Rightarrow> add (construct k (Str m) Undefined) s
              | _ \<Rightarrow> s)
         | Instance w \<Rightarrow> add w s)"

datatype filter_arg = NoFilter | Substring string | OfType kind

definition getWarnings :: "filter_arg \<Rightarrow> state \<Rightarrow> addr \<times> state" where
  "getWarnings type s =
     (let ws = heap s (warnings s)
      in case type of
           Substring t \<Rightarrow> alloc (filter (\<lambda>w. includes_str (message w) t) ws) s
         | OfType k \<Rightarrow> alloc (filter (\<lambda>w. instanceof w k) ws) s
         | NoFilter \<Rightarrow> alloc ws s)"

text \<open>
  A \<open>Map\<close> from names to arrays, as the list of its entries in the order the keys were
  first set; every array of the map is created by \<open>groupWarnings\<close> itself and belongs to
  one key, so an entry holds the elements of its array.
\<close>

type_synonym grouped = "(string \<times> warning list) list"

definition Map_has :: "grouped \<Rightarrow> string \<Rightarrow> bool" where
  "Map_has g n = (map_of g n \<noteq> None)"

definition Map_get :: "grouped \<Rightarrow> string \<Rightarrow> warning list option" where
  "Map_get g n = map_of g n"

definition Map_set :: "grouped \<Rightarrow> string \<Rightarrow> warning list \<Rightarrow> grouped" where
  "Map_set g n v = AList.update n v g"

text \<open>The body of the \<open>forEach\<close> callback of \<open>groupWarnings\<close>.\<close>

definition group_step :: "grouped \<Rightarrow> warning \<Rightarrow> grouped" where
  "group_step g w =
     (let n = name w;
          g1 = (if \<not> Map_has g n then Map_set g n [] else g)
      in case Map_get g1 n of
           None \<Rightarrow> g1
         | Some arr \<Rightarrow> Map_set g1 n (arr @ [w]))"

definition groupWarnings :: "state \<Rightarrow> grouped \<times> state" where
  "groupWarnings s =
     (let r = getWarnings NoFilter s
      in (foldl group_step [] (heap (snd r) (fst r)), snd r))"

definition clear :: "state \<Rightarrow> state" where
  "clear s = (let r = alloc [] s in (snd r)\<lparr>warnings := fst r\<rparr>)"

definition complete :: "state \<Rightarrow> state" where
  "complete s = clear (Observable_complete s)"

subsection \<open>Histories\<close>

text \<open>
  Every manager is the result of a sequence of calls on a new one; a call that returns a
  value leaves it with the caller and the state goes on.
\<close>

datatype op =
    Warn warn_arg type_arg
  | GetWarnings filter_arg
  | GroupWarnings
  | Clear
  | Complete
  | Subscribe observer
  | Unsubscribe observer

fun exec :: "op \<Rightarrow> state \<Rightarrow> state" where
  "exec (Warn a t) s = warn a t s"
| "exec (GetWarnings f) s = snd (getWarnings f s)"
| "exec GroupWarnings s = snd (groupWarnings s)"
| "exec Clear s = clear s"
| "exec Complete s = complete s"
| "exec (Subscribe ob) s = subscribe ob s"
| "exec (Unsubscribe ob) s = unsubscribe ob s"

definition run :: "op list \<Rightarrow> state \<Rightarrow> state" where
  "run ops s = fold exec ops s"


section \<open>Facts about strings and the hierarchy\<close>

lemma includes_str_sublist: "includes_str s t \<longleftrightarrow> sublist t s"
  by (induction s) (auto simp: sublist_Cons_right)

lemma includes_str_single: "includes_str s [c] \<longleftrightarrow> c \<in> set s"
  by (induction s) auto

lemma A_Cons: "A (Some (c # cs)) = (if toLowerCase_char c \<in> set ''aeiou'' then ''An'' else ''A'')"
  unfolding A_def first_def charAt0_def toLowerCase_def vowels_def
  by (simp only: option.case take_Suc_Cons take_0 One_nat_def list.map Let_def includes_str_single) simp

lemma message_Future: "message ((FutureWarning_new nt (Str m) x)\<lparr>code := c\<rparr>) = m"
  by (simp add: FutureWarning_new_def Warning_new_def Exception_new_def)

lemma instanceof_kind_sound: "instanceof_kind k t \<Longrightarrow> descendant_or_self k t"
proof (induction k t rule: instanceof_kind.induct)
  case (1 k t)
  show ?case
  proof (cases "k = t")
    case True
    then show ?thesis by (simp add: descendant_or_self_def)
  next
    case False
    with "1.prems" obtain p where p: "extends k = Some p" and ip: "instanceof_kind p t"
      by (auto simp: instanceof_kind.simps [of k t] split: option.splits)
    from "1.IH" [OF p ip] have "descendant_or_self p t" .
    with p show ?thesis
      unfolding descendant_or_self_def by (simp add: converse_rtranclp_into_rtranclp)
  qed
qed

lemma instanceof_kind_complete: "descendant_or_self k t \<Longrightarrow> instanceof_kind k t"
  unfolding descendant_or_self_def
proof (induction rule: converse_rtranclp_induct)
  case base
  show ?case by (simp add: instanceof_kind.simps [of t t])
next
  case (step y z)
  then show ?case by (simp add: instanceof_kind.simps [of y t])
qed

lemma instanceof_iff: "instanceof w t \<longleftrightarrow> descendant_or_self (kind w) t"
  unfolding instanceof_def using instanceof_kind_sound instanceof_kind_complete by blast

lemmas class_defs = construct_def Warning_new_def OSWarning_new_def MemoryWarning_new_def
  DiskWarning_new_def ProcessWarning_new_def ConnectionWarning_new_def FutureWarning_new_def
  StabilityWarning_new_def PendingDeprecationWarning_new_def DeprecationWarning_new_def
  Exception_new_def

lemma lower_A: "toLowerCase_char CHR ''A'' = CHR ''a''"
  by code_simp

lemma lower_c: "toLowerCase_char CHR ''c'' = CHR ''c''"
  by code_simp

section \<open>Warning codes\<close>

text \<open>
  Claim C9. Whatever arguments a warning is constructed with, its \<open>code\<close> is the fixed
  value of its class: Warning 72, OSWarning 73, MemoryWarning 74, DiskWarning 75,
  ProcessWarning 76, ConnectionWarning 77, FutureWarning 88, StabilityWarning 89,
  PendingDeprecationWarning 90, DeprecationWarning 91.
\<close>

theorem code_of_each_class:
  "code (construct Warning a1 a2) = 72
   \<and> code (construct OSWarning a1 a2) = 73
   \<and> code (construct MemoryWarning a1 a2) = 74
   \<and> code (construct DiskWarning a1 a2) = 75
   \<and> code (construct ProcessWarning a1 a2) = 76
   \<and> code (construct ConnectionWarning a1 a2) = 77
   \<and> code (construct FutureWarning a1 a2) = 88
   \<and> code (construct StabilityWarning a1 a2) = 89
   \<and> code (construct PendingDeprecationWarning a1 a2) = 90
   \<and> code (construct DeprecationWarning a1 a2) = 91"
  by (simp add: construct_def Warning_new_def OSWarning_new_def MemoryWarning_new_def
      DiskWarning_new_def ProcessWarning_new_def ConnectionWarning_new_def
      FutureWarning_new_def StabilityWarning_new_def PendingDeprecationWarning_new_def
      DeprecationWarning_new_def Let_def)


section \<open>The message of a stability warning\<close>

text \<open>
  Claim C10. A \<open>StabilityWarning\<close> constructed from a data object in which none of
  \<open>featureType\<close>, \<open>featureName\<close> and \<open>aboutUrl\<close> is truthy, or from the empty string
  as message, has the default message. When \<open>featureType\<close> is a non-empty string, the
  message starts with the article, a space and the feature type, the article being \<open>An\<close>
  exactly when the lowercased first character of \<open>featureType\<close> is one of \<open>aeiou\<close>
  and \<open>A\<close> otherwise; when \<open>featureType\<close> is missing or empty the message starts with
  \<open>A feature\<close>.
\<close>

theorem stability_message:
  "(\<not> truthy (field d ''featureType'') \<and> \<not> truthy (field d ''featureName'')
      \<and> \<not> truthy (field d ''aboutUrl'')
      \<longrightarrow> message (construct StabilityWarning (Obj d) a2) = Stability_DEFAULT_MESSAGE)
   \<and> message (construct StabilityWarning (Str []) a2) = Stability_DEFAULT_MESSAGE
   \<and> (field d ''featureType'' = Some (c # cs)
      \<longrightarrow> prefix ((if toLowerCase_char c \<in> set ''aeiou'' then ''An'' else ''A'') @ '' '' @ c # cs)
            (message (construct StabilityWarning (Obj d) a2)))
   \<and> (\<not> truthy (field d ''featureType'')
      \<longrightarrow> prefix ''A feature'' (message (construct StabilityWarning (Obj d) a2)))"
proof (intro conjI impI)
  assume "\<not> truthy (field d ''featureType'') \<and> \<not> truthy (field d ''featureName'')
      \<and> \<not> truthy (field d ''aboutUrl'')"
  then show "message (construct StabilityWarning (Obj d) a2) = Stability_DEFAULT_MESSAGE"
    by (simp add: construct_def StabilityWarning_new_def Let_def message_Future
        Stability_createMessageFromData_def Stability_DEFAULT_MESSAGE_def)
next
  show "message (construct StabilityWarning (Str []) a2) = Stability_DEFAULT_MESSAGE"
    by (simp add: construct_def StabilityWarning_new_def Let_def message_Future)
next
  assume ft: "field d ''featureType'' = Some (c # cs)"
  let ?art = "if toLowerCase_char c \<in> set ''aeiou'' then ''An'' else ''A''"
  have "\<exists>rest. Stability_createMessageFromData d = A (Some (c # cs)) @ '' '' @ (c # cs) @ rest"
    by (cases "truthy (field d ''aboutUrl'')"; cases "truthy (field d ''featureName'')")
      (simp_all add: Stability_createMessageFromData_def Let_def ft)
  then obtain rest where
    shape: "Stability_createMessageFromData d = A (Some (c # cs)) @ '' '' @ (c # cs) @ rest"
    by blast
  then have ne: "Stability_createMessageFromData d \<noteq> []"
    by simp
  have "message (construct StabilityWarning (Obj d) a2) = Stability_createMessageFromData d"
    using ne by (simp add: construct_def StabilityWarning_new_def Let_def message_Future)
  also have "\<dots> = (?art @ '' '' @ c # cs) @ rest"
    unfolding shape A_Cons by simp
  finally show "prefix (?art @ '' '' @ c # cs) (message (construct StabilityWarning (Obj d) a2))"
    by (simp only: prefixI)
next
  assume "\<not> truthy (field d ''featureType'')"
  then show "prefix ''A feature'' (message (construct StabilityWarning (Obj d) a2))"
    by (simp add: construct_def StabilityWarning_new_def Let_def message_Future
        Stability_createMessageFromData_def Stability_DEFAULT_MESSAGE_def)
qed


theorem stability_message_witness:
  "message (construct StabilityWarning (Obj [(''foo'', ''bar'')]) Undefined)
     = ''A feature is unstable and should not be used in production environments.''
   \<and> prefix ''A feature'' (message (construct StabilityWarning (Obj [(''foo'', ''bar'')]) Undefined))
   \<and> prefix ''An Action'' (message (construct StabilityWarning (Obj [(''featureType'', ''Action'')]) Undefined))
   \<and> prefix ''A class'' (message (construct StabilityWarning (Obj [(''featureType'', ''class''), (''featureName'', ''Foo'')]) Undefined))"
  using stability_message [of "[(''foo'', ''bar'')]" Undefined "CHR ''x''" "[]"]
    stability_message [of "[(''featureType'', ''Action'')]" Undefined "CHR ''A''" "''ction''"]
    stability_message [of "[(''featureType'', ''class''), (''featureName'', ''Foo'')]" Undefined "CHR ''c''" "''lass''"]
  by (simp add: field_def lower_A lower_c Stability_DEFAULT_MESSAGE_def)

section \<open>Properties of the manager\<close>

lemmas manager_defs = warn_def add_def publish_def getWarnings_def alloc_def
  groupWarnings_def clear_def complete_def Observable_complete_def subscribe_def
  unsubscribe_def length_wm_def

lemma exec_inv:
  "warnings s < fresh s \<and> distinct (observers s)
   \<Longrightarrow> warnings (exec x s) < fresh (exec x s) \<and> distinct (observers (exec x s))"
  by (cases x) (auto simp: manager_defs Let_def split: warn_arg.splits type_arg.splits filter_arg.splits)

lemma run_inv:
  "warnings s < fresh s \<and> distinct (observers s)
   \<Longrightarrow> warnings (run xs s) < fresh (run xs s) \<and> distinct (observers (run xs s))"
  unfolding run_def
proof (induction xs arbitrary: s)
  case Nil
  then show ?case by simp
next
  case (Cons x xs)
  from Cons.IH [OF exec_inv [OF Cons.prems]] show ?case by simp
qed

lemma reachable_inv:
  "warnings (run xs WarningManager_new) < fresh (run xs WarningManager_new)
   \<and> distinct (observers (run xs WarningManager_new))"
  by (rule run_inv) (simp add: WarningManager_new_def)










text \<open>
  Claim C3, amended. \<open>warn\<close> with a string and an explicitly falsy class other than
  \<open>undefined\<close> changes nothing: no record, no notification. With the class omitted (or
  \<open>undefined\<close>) the default \<open>Warning\<close> is used: the call is the call with
  \<open>Warning\<close>, appends one record and notifies the observers.
\<close>

theorem warn_without_class:
  "warn (Message m) Falsy s = s
   \<and> warn (Message m) Omitted s = warn (Message m) (Class Warning) s
   \<and> length_wm (warn (Message m) Omitted s) = Suc (length_wm s)
   \<and> notified (warn (Message m) Omitted s)
       = notified s @ map (\<lambda>ob. (ob, construct Warning (Str m) Undefined)) (observers s)"
  by (simp add: manager_defs)

theorem warn_without_class_counterexample:
  "length_wm (warn (Message ''slow'') Omitted (subscribe 7 WarningManager_new))
     \<noteq> length_wm (subscribe 7 WarningManager_new)
   \<and> map fst (notified (warn (Message ''slow'') Omitted (subscribe 7 WarningManager_new))) = [7]
   \<and> notified (subscribe 7 WarningManager_new) = []"
  by (simp add: manager_defs WarningManager_new_def)

lemma exec_keeps_snapshot:
  "a < fresh s \<and> a \<noteq> warnings s
   \<Longrightarrow> a < fresh (exec x s) \<and> a \<noteq> warnings (exec x s) \<and> heap (exec x s) a = heap s a"
  by (cases x) (auto simp: manager_defs Let_def split: warn_arg.splits type_arg.splits filter_arg.splits)

lemma run_keeps_snapshot:
  "a < fresh s \<and> a \<noteq> warnings s \<Longrightarrow> heap (run xs s) a = heap s a"
  unfolding run_def
proof (induction xs arbitrary: s)
  case Nil
  then show ?case by simp
next
  case (Cons x xs)
  from exec_keeps_snapshot [OF Cons.prems, of x]
  have step: "a < fresh (exec x s) \<and> a \<noteq> warnings (exec x s)" and same: "heap (exec x s) a = heap s a"
    by simp_all
  from Cons.IH [OF step] same show ?case by simp
qed

text \<open>
  Claim C4. On every manager, \<open>getWarnings()\<close> returns an array that holds the stored
  records in insertion order, of length \<open>length\<close>, and no later call on the manager,
  recording included, changes the array that was returned.
\<close>

theorem getWarnings_snapshot:
  "heap (snd (getWarnings NoFilter (run ops WarningManager_new)))
        (fst (getWarnings NoFilter (run ops WarningManager_new)))
     = heap (run ops WarningManager_new) (warnings (run ops WarningManager_new))
   \<and> length (heap (snd (getWarnings NoFilter (run ops WarningManager_new)))
        (fst (getWarnings NoFilter (run ops WarningManager_new))))
     = length_wm (run ops WarningManager_new)
   \<and> heap (run later (snd (getWarnings NoFilter (run ops WarningManager_new))))
        (fst (getWarnings NoFilter (run ops WarningManager_new)))
     = heap (run ops WarningManager_new) (warnings (run ops WarningManager_new))"
proof -
  let ?s = "run ops WarningManager_new"
  let ?r = "getWarnings NoFilter ?s"
  have inv: "warnings ?s < fresh ?s"
    using reachable_inv [of ops] by simp
  have got: "heap (snd ?r) (fst ?r) = heap ?s (warnings ?s)"
    by (simp add: getWarnings_def alloc_def)
  have "fst ?r < fresh (snd ?r) \<and> fst ?r \<noteq> warnings (snd ?r)"
    using inv by (simp add: getWarnings_def alloc_def)
  then have "heap (run later (snd ?r)) (fst ?r) = heap (snd ?r) (fst ?r)"
    by (rule run_keeps_snapshot)
  with got show ?thesis
    by (simp add: length_wm_def)
qed

theorem getWarnings_snapshot_witness:
  "heap (run [Warn (Message ''c'') Omitted, Clear]
          (snd (getWarnings NoFilter
            (run [Warn (Message ''a'') Omitted, Warn (Message ''b'') (Class OSWarning)]
              WarningManager_new))))
        (fst (getWarnings NoFilter
            (run [Warn (Message ''a'') Omitted, Warn (Message ''b'') (Class OSWarning)]
              WarningManager_new)))
   = [construct Warning (Str ''a'') Undefined, construct OSWarning (Str ''b'') Undefined]"
proof -
  let ?s = "run [Warn (Message ''a'') Omitted, Warn (Message ''b'') (Class OSWarning)]
              WarningManager_new"
  have "heap ?s (warnings ?s)
      = [construct Warning (Str ''a'') Undefined, construct OSWarning (Str ''b'') Undefined]"
    by (simp add: run_def manager_defs WarningManager_new_def)
  with getWarnings_snapshot [of "[Warn (Message ''a'') Omitted, Warn (Message ''b'') (Class OSWarning)]"
      "[Warn (Message ''c'') Omitted, Clear]"]
  show ?thesis
    by simp
qed

text \<open>
  Claim C5. \<open>getWarnings(t)\<close> for a string \<open>t\<close> returns, in recording order, exactly
  the stored records whose message has \<open>t\<close> as a contiguous part, code unit by code unit;
  for the empty string these are all the stored records.
\<close>

theorem getWarnings_substring:
  "heap (snd (getWarnings (Substring t) s)) (fst (getWarnings (Substring t) s))
     = filter (\<lambda>w. sublist t (message w)) (heap s (warnings s))
   \<and> heap (snd (getWarnings (Substring []) s)) (fst (getWarnings (Substring []) s))
     = heap s (warnings s)"
  by (simp add: getWarnings_def alloc_def includes_str_sublist)

theorem getWarnings_substring_witness:
  "heap (snd (getWarnings (Substring ''disk'')
          (run [Warn (Message ''disk low'') (Class DiskWarning), Warn (Message ''slow'') Omitted,
                Warn (Message ''Disk low again'') (Class DiskWarning)] WarningManager_new)))
        (fst (getWarnings (Substring ''disk'')
          (run [Warn (Message ''disk low'') (Class DiskWarning), Warn (Message ''slow'') Omitted,
                Warn (Message ''Disk low again'') (Class DiskWarning)] WarningManager_new)))
   = [construct DiskWarning (Str ''disk low'') Undefined]"
proof -
  let ?s = "run [Warn (Message ''disk low'') (Class DiskWarning), Warn (Message ''slow'') Omitted,
                Warn (Message ''Disk low again'') (Class DiskWarning)] WarningManager_new"
  have stored: "heap ?s (warnings ?s)
      = [construct DiskWarning (Str ''disk low'') Undefined, construct Warning (Str ''slow'') Undefined,
         construct DiskWarning (Str ''Disk low again'') Undefined]"
    by (simp add: run_def manager_defs WarningManager_new_def)
  have msgs: "message (construct DiskWarning (Str ''disk low'') Undefined) = ''disk low''"
    "message (construct Warning (Str ''slow'') Undefined) = ''slow''"
    "message (construct DiskWarning (Str ''Disk low again'') Undefined) = ''Disk low again''"
    by (simp_all add: class_defs)
  have "filter (\<lambda>w. sublist ''disk'' (message w)) (heap ?s (warnings ?s))
      = [construct DiskWarning (Str ''disk low'') Undefined]"
    unfolding stored by (simp add: msgs includes_str_sublist [symmetric])
  with getWarnings_substring [of "''disk''" ?s] show ?thesis
    by simp
qed

text \<open>
  Claim C6. \<open>getWarnings(v)\<close> for a class \<open>v\<close> returns, in recording order, exactly the
  stored records whose class is \<open>v\<close> or reaches \<open>v\<close> through \<open>extends\<close> clauses.
\<close>

theorem getWarnings_type:
  "heap (snd (getWarnings (OfType v) s)) (fst (getWarnings (OfType v) s))
     = filter (\<lambda>w. descendant_or_self (kind w) v) (heap s (warnings s))"
  by (simp add: getWarnings_def alloc_def instanceof_iff)

theorem getWarnings_type_witness:
  "heap (snd (getWarnings (OfType OSWarning)
          (run [Warn (Message ''a'') Omitted, Warn (Message ''b'') (Class DiskWarning),
                Warn (Message ''c'') (Class (UserClass 0 ''CustomWarning'' OSWarning)),
                Warn (Message ''d'') (Class FutureWarning)] WarningManager_new)))
        (fst (getWarnings (OfType OSWarning)
          (run [Warn (Message ''a'') Omitted, Warn (Message ''b'') (Class DiskWarning),
                Warn (Message ''c'') (Class (UserClass 0 ''CustomWarning'' OSWarning)),
                Warn (Message ''d'') (Class FutureWarning)] WarningManager_new)))
   = [construct DiskWarning (Str ''b'') Undefined,
      construct (UserClass 0 ''CustomWarning'' OSWarning) (Str ''c'') Undefined]"
proof -
  let ?s = "run [Warn (Message ''a'') Omitted, Warn (Message ''b'') (Class DiskWarning),
                Warn (Message ''c'') (Class (UserClass 0 ''CustomWarning'' OSWarning)),
                Warn (Message ''d'') (Class FutureWarning)] WarningManager_new"
  have stored: "heap ?s (warnings ?s)
      = [construct Warning (Str ''a'') Undefined, construct DiskWarning (Str ''b'') Undefined,
         construct (UserClass 0 ''CustomWarning'' OSWarning) (Str ''c'') Undefined,
         construct FutureWarning (Str ''d'') Undefined]"
    by (simp add: run_def manager_defs WarningManager_new_def)
  have kinds: "kind (construct Warning (Str ''a'') Undefined) = Warning"
    "kind (construct DiskWarning (Str ''b'') Undefined) = DiskWarning"
    "kind (construct (UserClass 0 ''CustomWarning'' OSWarning) (Str ''c'') Undefined)
       = UserClass 0 ''CustomWarning'' OSWarning"
    "kind (construct FutureWarning (Str ''d'') Undefined) = FutureWarning"
    by (simp_all add: class_defs)
  have "filter (\<lambda>w. descendant_or_self (kind w) OSWarning) (heap ?s (warnings ?s))
      = [construct DiskWarning (Str ''b'') Undefined,
         construct (UserClass 0 ''CustomWarning'' OSWarning) (Str ''c'') Undefined]"
    unfolding stored
    by (simp add: kinds instanceof_iff [symmetric] instanceof_def instanceof_kind.simps)
  with getWarnings_type [of OSWarning ?s] show ?thesis
    by simp
qed

lemma map_of_group_step:
  "map_of (group_step g w) n
   = (if n = name w then Some ((case map_of g n of None \<Rightarrow> [] | Some a \<Rightarrow> a) @ [w])
      else map_of g n)"
  by (simp add: group_step_def Map_has_def Map_get_def Map_set_def Let_def update_conv'
      split: option.splits)

lemma keys_group_step:
  "distinct (map fst g) \<Longrightarrow> distinct (map fst (group_step g w))"
  "fst ` set (group_step g w) = insert (name w) (fst ` set g)"
  by (auto simp: group_step_def Map_has_def Map_get_def Map_set_def Let_def distinct_update
      dom_update split: option.splits)

lemma concat_update_new:
  "map_of g n = None \<Longrightarrow> concat (map snd (AList.update n [] g)) = concat (map snd g)"
  by (induction g) (auto split: if_splits)

lemma concat_update_push:
  "map_of g n = Some arr
   \<Longrightarrow> mset (concat (map snd (AList.update n (arr @ [w]) g))) = mset (concat (map snd g)) + {#w#}"
  by (induction g) (auto split: if_splits)

lemma mset_group_step:
  "mset (concat (map snd (group_step g w))) = mset (concat (map snd g)) + {#w#}"
proof (cases "map_of g (name w)")
  case None
  then have "group_step g w = AList.update (name w) ([] @ [w]) (AList.update (name w) [] g)"
    by (simp add: group_step_def Map_has_def Map_get_def Map_set_def Let_def update_conv')
  moreover have "map_of (AList.update (name w) [] g) (name w) = Some []"
    by (simp add: update_conv')
  ultimately show ?thesis
    using concat_update_push [of "AList.update (name w) [] g" "name w" "[]" w]
      concat_update_new [OF None] by simp
next
  case (Some arr)
  then have "group_step g w = AList.update (name w) (arr @ [w]) g"
    by (simp add: group_step_def Map_has_def Map_get_def Map_set_def Let_def)
  with concat_update_push [OF Some] show ?thesis by simp
qed

lemma foldl_group_step:
  "map_of (foldl group_step g ws) n
     = (if n \<in> name ` set ws \<or> map_of g n \<noteq> None
        then Some ((case map_of g n of None \<Rightarrow> [] | Some a \<Rightarrow> a) @ filter (\<lambda>w. name w = n) ws)
        else None)"
  by (induction ws arbitrary: g) (auto simp: map_of_group_step split: option.splits)

lemma foldl_group_keys:
  "distinct (map fst g) \<Longrightarrow> distinct (map fst (foldl group_step g ws))"
  "fst ` set (foldl group_step g ws) = name ` set ws \<union> fst ` set g"
  by (induction ws arbitrary: g) (auto simp: keys_group_step)

lemma foldl_group_mset:
  "mset (concat (map snd (foldl group_step g ws))) = mset (concat (map snd g)) + mset ws"
  by (induction ws arbitrary: g) (simp_all add: mset_group_step)

text \<open>
  Claim C7. The map returned by \<open>groupWarnings\<close> has each key once, its keys are the names
  of the stored records, the group of a key is the sequence of the stored records of that
  name in recording order (and so is not empty), the groups together hold the stored
  records, each as often as it is stored, and their sizes sum to \<open>length\<close>.
\<close>

theorem groupWarnings_partition:
  "distinct (map fst (fst (groupWarnings s)))
   \<and> set (map fst (fst (groupWarnings s))) = name ` set (heap s (warnings s))
   \<and> (\<forall>e \<in> set (fst (groupWarnings s)).
        snd e = filter (\<lambda>w. name w = fst e) (heap s (warnings s)) \<and> snd e \<noteq> [])
   \<and> mset (concat (map snd (fst (groupWarnings s)))) = mset (heap s (warnings s))
   \<and> sum_list (map (\<lambda>e. length (snd e)) (fst (groupWarnings s))) = length_wm s"
proof -
  let ?ws = "heap s (warnings s)"
  let ?g = "foldl group_step [] ?ws"
  have g: "fst (groupWarnings s) = ?g"
    by (simp add: groupWarnings_def getWarnings_def alloc_def Let_def)
  have d: "distinct (map fst ?g)"
    by (rule foldl_group_keys) simp
  have k: "set (map fst ?g) = name ` set ?ws"
    using foldl_group_keys(2) [of "[]" ?ws] by simp
  have each: "snd e = filter (\<lambda>w. name w = fst e) ?ws \<and> snd e \<noteq> []" if "e \<in> set ?g" for e
  proof -
    from that have "(fst e, snd e) \<in> set ?g"
      by simp
    with d have "map_of ?g (fst e) = Some (snd e)"
      by (rule map_of_is_SomeI)
    moreover from that k have "fst e \<in> name ` set ?ws"
      by force
    ultimately show ?thesis
      by (auto simp: foldl_group_step filter_empty_conv)
  qed
  have m: "mset (concat (map snd ?g)) = mset ?ws"
    by (simp add: foldl_group_mset)
  have "sum_list (map (\<lambda>e. length (snd e)) ?g) = length (concat (map snd ?g))"
    by (simp add: length_concat comp_def)
  also have "\<dots> = size (mset (concat (map snd ?g)))"
    by simp
  also have "\<dots> = length_wm s"
    unfolding m by (simp add: length_wm_def)
  finally have total: "sum_list (map (\<lambda>e. length (snd e)) ?g) = length_wm s" .
  from d k each m total show ?thesis
    unfolding g by blast
qed

theorem groupWarnings_partition_witness:
  "(''CustomWarning'',
      [construct (UserClass 0 ''CustomWarning'' Warning) (Str ''b'') Undefined,
       construct (UserClass 1 ''CustomWarning'' OSWarning) (Str ''c'') Undefined])
     \<in> set (fst (groupWarnings
          (run [Warn (Message ''a'') (Class DiskWarning),
                Warn (Message ''b'') (Class (UserClass 0 ''CustomWarning'' Warning)),
                Warn (Message ''c'') (Class (UserClass 1 ''CustomWarning'' OSWarning))]
            WarningManager_new)))
   \<and> filter (\<lambda>w. name w = ''CustomWarning'')
        (heap (run [Warn (Message ''a'') (Class DiskWarning),
                Warn (Message ''b'') (Class (UserClass 0 ''CustomWarning'' Warning)),
                Warn (Message ''c'') (Class (UserClass 1 ''CustomWarning'' OSWarning))]
            WarningManager_new)
          (warnings (run [Warn (Message ''a'') (Class DiskWarning),
                Warn (Message ''b'') (Class (UserClass 0 ''CustomWarning'' Warning)),
                Warn (Message ''c'') (Class (UserClass 1 ''CustomWarning'' OSWarning))]
            WarningManager_new)))
     = [construct (UserClass 0 ''CustomWarning'' Warning) (Str ''b'') Undefined,
        construct (UserClass 1 ''CustomWarning'' OSWarning) (Str ''c'') Undefined]
   \<and> map fst (fst (groupWarnings
          (run [Warn (Message ''a'') (Class DiskWarning),
                Warn (Message ''b'') (Class (UserClass 0 ''CustomWarning'' Warning)),
                Warn (Message ''c'') (Class (UserClass 1 ''CustomWarning'' OSWarning))]
            WarningManager_new))) = [''DiskWarning'', ''CustomWarning'']
   \<and> sum_list (map (\<lambda>e. length (snd e)) (fst (groupWarnings
          (run [Warn (Message ''a'') (Class DiskWarning),
                Warn (Message ''b'') (Class (UserClass 0 ''CustomWarning'' Warning)),
                Warn (Message ''c'') (Class (UserClass 1 ''CustomWarning'' OSWarning))]
            WarningManager_new)))) = 3"
proof -
  let ?s = "run [Warn (Message ''a'') (Class DiskWarning),
                Warn (Message ''b'') (Class (UserClass 0 ''CustomWarning'' Warning)),
                Warn (Message ''c'') (Class (UserClass 1 ''CustomWarning'' OSWarning))]
            WarningManager_new"
  let ?b = "construct (UserClass 0 ''CustomWarning'' Warning) (Str ''b'') Undefined"
  let ?c = "construct (UserClass 1 ''CustomWarning'' OSWarning) (Str ''c'') Undefined"
  have g: "fst (groupWarnings ?s)
      = [(''DiskWarning'', [construct DiskWarning (Str ''a'') Undefined]),
         (''CustomWarning'', [?b, ?c])]"
    by (simp add: run_def manager_defs WarningManager_new_def group_step_def Map_has_def
        Map_get_def Map_set_def name_def class_defs Let_def)
  then have mem: "(''CustomWarning'', [?b, ?c]) \<in> set (fst (groupWarnings ?s))"
    by simp
  have len: "length_wm ?s = 3"
    by (simp add: run_def manager_defs WarningManager_new_def)
  from groupWarnings_partition [of ?s] mem
  have "snd (''CustomWarning'', [?b, ?c])
      = filter (\<lambda>w. name w = fst (''CustomWarning'', [?b, ?c])) (heap ?s (warnings ?s))"
    by blast
  moreover from groupWarnings_partition [of ?s] len
  have "sum_list (map (\<lambda>e. length (snd e)) (fst (groupWarnings ?s))) = 3"
    by simp
  ultimately show ?thesis
    using mem g by simp
qed

text \<open>
  Claim C8. \<open>clear()\<close> leaves \<open>length\<close> at 0 and an unfiltered query after it returns
  the empty array; the observers, the \<open>completed\<close> flag and the trace of notifications
  are as before.
\<close>

theorem clear_frame:
  "length_wm (clear s) = 0
   \<and> heap (snd (getWarnings NoFilter (clear s))) (fst (getWarnings NoFilter (clear s))) = []
   \<and> observers (clear s) = observers s
   \<and> completed (clear s) = completed s
   \<and> notified (clear s) = notified s"
  by (simp add: manager_defs Let_def)









end
